theory Spec2Isabelle
  imports Main "HOL-Library.Word" "HOL-Library.AList"
begin

unbundle bit_operations_syntax

section \<open>The projector feed (secondary/projector/feed.go)\<close>

text \<open>
  A feed is owned by one goroutine, \<^verbatim>\<open>genServer\<close>. The model passes the feed
  explicitly: every function of the source that mutates a field takes the feed and returns
  the new one. What lies outside the feed (cluster topology, the upstream DCP connection,
  the data path that posts feedback, endpoint transport, the clock) is a record of
  functions, \<open>Env\<close>, which every function that needs a collaborator takes.
\<close>

subsection \<open>Errors and upstream status codes\<close>

text \<open>
  The error values of \<^verbatim>\<open>projector/client\<close> that feed.go returns. A Go \<^verbatim>\<open>error\<close> is
  \<open>error option\<close>, \<open>None\<close> for \<^verbatim>\<open>nil\<close>. \<open>ErrorTransport\<close> stands for the errors that
  feed.go hands on unchanged from a collaborator (the endpoint factory, the address
  resolver, the UUID generator).
\<close>

datatype error =
    ErrorInconsistentFeed
  | ErrorInvalidVbucketBranch
  | ErrorInvalidBucket
  | ErrorInvalidVbucket
  | ErrorFeeder
  | ErrorNotMyVbucket
  | ErrorStreamRequest
  | ErrorStreamEnd
  | ErrorResponseTimeout
  | ErrorClusterInfo
  | ErrorDCPConnection
  | ErrorDCPPool
  | ErrorDCPBucket
  | ErrorTransport string

text \<open>
  \<^verbatim>\<open>mcd.Status\<close>: feed.go distinguishes three codes by name; every other code is
  \<open>OTHER\<close> with its number.
\<close>

datatype Status = SUCCESS | ROLLBACK | NOT_MY_VBUCKET | OTHER nat

subsection \<open>Timestamps (protobuf.TsVbuuid)\<close>

type_synonym vbno = "16 word"
type_synonym vbentry = "vbno \<times> 64 word \<times> 64 word \<times> 64 word \<times> 64 word"

text \<open>
  Modelled from the spec: the methods of \<^verbatim>\<open>protobuf.TsVbuuid\<close> live in
  secondary/protobuf/projector, which is not among the sources. The spec gives the type as
  an ordered association from a 16-bit partition number to (sequence number, branch id,
  start, end), tagged with pool and bucket, a value type whose union and filter produce new
  values. feed.go holds it behind a pointer, so a \<^verbatim>\<open>*TsVbuuid\<close> is a
  \<open>TsVbuuid option\<close> with \<open>None\<close> for \<^verbatim>\<open>nil\<close>.
\<close>

record TsVbuuid =
  Pool :: string
  Bucket :: string
  Entries :: "vbentry list"

text \<open>Modelled from the spec: an empty timestamp for a pool and a bucket.\<close>

definition NewTsVbuuid :: "string \<Rightarrow> string \<Rightarrow> TsVbuuid" where
  "NewTsVbuuid pooln bucketn = \<lparr>Pool = pooln, Bucket = bucketn, Entries = []\<rparr>"

text \<open>Modelled from the spec: append one partition entry at the end.\<close>

definition Append :: "TsVbuuid \<Rightarrow> vbno \<Rightarrow> 64 word \<Rightarrow> 64 word \<Rightarrow> 64 word \<Rightarrow> 64 word \<Rightarrow> TsVbuuid" where
  "Append ts vb seqno vbuuid sStart sEnd =
     ts\<lparr>Entries := Entries ts @ [(vb, seqno, vbuuid, sStart, sEnd)]\<rparr>"

text \<open>
  Modelled from the spec: the getters of a possibly nil timestamp. feed.go calls them on
  the nil it reads from a map that has no entry for the bucket, so nil reads as the
  empty timestamp. \<open>GetVbnos\<close> is the enumeration of partition numbers; the width
  conversion \<^verbatim>\<open>c.Vbno32to16\<close> that feed.go applies to it is the identity on 16-bit
  partition numbers.
\<close>

definition GetPool :: "TsVbuuid option \<Rightarrow> string" where
  "GetPool p = (case p of None \<Rightarrow> [] | Some ts \<Rightarrow> Pool ts)"

definition GetBucket :: "TsVbuuid option \<Rightarrow> string" where
  "GetBucket p = (case p of None \<Rightarrow> [] | Some ts \<Rightarrow> Bucket ts)"

definition GetVbnos :: "TsVbuuid option \<Rightarrow> vbno list" where
  "GetVbnos p = (case p of None \<Rightarrow> [] | Some ts \<Rightarrow> map fst (Entries ts))"

text \<open>Modelled from the spec: membership of a partition.\<close>

definition Contains :: "TsVbuuid option \<Rightarrow> vbno \<Rightarrow> bool" where
  "Contains p vb = (vb \<in> set (GetVbnos p))"

text \<open>
  Modelled from the spec: the entry of a partition, an error when there is none (also for
  the nil timestamp: genServer relies on it to drop feedback for an unknown bucket).
\<close>

definition Get :: "TsVbuuid option \<Rightarrow> vbno \<Rightarrow> error + (64 word \<times> 64 word \<times> 64 word \<times> 64 word)" where
  "Get p vb =
     (case p of
        None \<Rightarrow> Inl ErrorInvalidVbucket
      | Some ts \<Rightarrow>
          (case map_of (Entries ts) vb of
             None \<Rightarrow> Inl ErrorInvalidVbucket
           | Some e \<Rightarrow> Inr e))"

text \<open>
  Modelled from the spec: filter by a partition subset. \<open>SelectByVbuckets\<close> keeps the
  listed partitions, \<open>FilterByVbuckets\<close> drops them; both return a new value and leave
  nil as it is.
\<close>

definition SelectByVbuckets :: "TsVbuuid option \<Rightarrow> vbno list \<Rightarrow> TsVbuuid option" where
  "SelectByVbuckets p vbs =
     (case p of
        None \<Rightarrow> None
      | Some ts \<Rightarrow> Some (ts\<lparr>Entries := filter (\<lambda>e. fst e \<in> set vbs) (Entries ts)\<rparr>))"

definition FilterByVbuckets :: "TsVbuuid option \<Rightarrow> vbno list \<Rightarrow> TsVbuuid option" where
  "FilterByVbuckets p vbs =
     (case p of
        None \<Rightarrow> None
      | Some ts \<Rightarrow> Some (ts\<lparr>Entries := filter (\<lambda>e. fst e \<notin> set vbs) (Entries ts)\<rparr>))"

text \<open>
  Modelled from the spec: union. The receiver's entries come first, then the entries of
  the argument for partitions the receiver does not have; a nil side yields the other
  side (start relies on it for a bucket that has no entry yet).
\<close>

definition Union :: "TsVbuuid option \<Rightarrow> TsVbuuid option \<Rightarrow> TsVbuuid option" where
  "Union p q =
     (case p of
        None \<Rightarrow> q
      | Some ts \<Rightarrow>
          (case q of
             None \<Rightarrow> Some ts
           | Some other \<Rightarrow>
               Some (ts\<lparr>Entries := Entries ts @
                  filter (\<lambda>e. fst e \<notin> set (map fst (Entries ts))) (Entries other)\<rparr>)))"

text \<open>Modelled from the spec: emptiness, guarded by the nil test as genServer writes it.\<close>

definition Len :: "TsVbuuid \<Rightarrow> nat" where
  "Len ts = length (Entries ts)"

text \<open>
  Modelled from the spec: \<^verbatim>\<open>c.RemoveUint16\<close> (secondary/common, not among the sources)
  removes a partition from the list of partitions still awaited.
\<close>

definition RemoveUint16 :: "vbno \<Rightarrow> vbno list \<Rightarrow> vbno list" where
  "RemoveUint16 vb vbs = filter (\<lambda>x. x \<noteq> vb) vbs"

subsection \<open>Back-channel messages\<close>

record controlStreamRequest =
  sr_bucket :: string
  sr_opaque :: "16 word"
  sr_status :: Status
  sr_vbno :: vbno
  sr_vbuuid :: "64 word"
  sr_seqno :: "64 word"

record controlStreamEnd =
  se_bucket :: string
  se_opaque :: "16 word"
  se_status :: Status
  se_vbno :: vbno

record controlFinKVData =
  fin_bucket :: string

text \<open>
  The channels carry \<^verbatim>\<open>[]interface{}\<close>. Every send on the back channel in feed.go
  (PostStreamRequest, PostStreamEnd, PostFinKVdata and the re-population at the end of
  waitOnFeedback) is a slice literal of exactly one element, and every receiver reads
  \<^verbatim>\<open>msg[0]\<close> only, so a channel message is modelled by its element 0. That element is
  a pointer to one of the three control structs, or again a one-element slice: \<open>Slice m\<close>
  is the \<^verbatim>\<open>[]interface{}\<close> whose element 0 is \<open>m\<close>.
\<close>

datatype iface =
    StreamRequest controlStreamRequest
  | StreamEnd controlStreamEnd
  | FinKVData controlFinKVData
  | Slice iface

subsection \<open>The feed\<close>

datatype BucketFeeder = BucketFeeder string

datatype KVData = KVData string

datatype RouterEndpoint = RouterEndpoint nat

record Evaluator =
  ev_bucket :: string

record Router =
  rt_endpoints :: "string list"

record Engine =
  en_uuid :: "64 word"
  en_evaluator :: Evaluator
  en_router :: "Router option"

text \<open>
  The requests that feeders receive, in the order they were issued. The field is not in
  the source: it records the calls \<^verbatim>\<open>feeder.StartVbStreams\<close> and \<^verbatim>\<open>feeder.EndVbStreams\<close>
  of bucketFeed with the bucket, the opaque and the timestamp they carry.
\<close>

datatype upcall =
    StartVbStreams string "16 word" "TsVbuuid option"
  | EndVbStreams string "16 word" "TsVbuuid option"

text \<open>
  The Go maps hold pointers, so a bucket can have an entry whose value is nil:
  \<open>reqTss feed b = None\<close> is no entry, \<open>Some None\<close> an entry holding nil. The two
  maps that feed.go ranges over, \<open>engines\<close> and \<open>endpoints\<close>, are association lists
  with distinct keys, visited in list order, read with \<open>map_of\<close> and written with
  \<open>AList.update\<close>. \<open>backch\<close> is
  the content of the buffered back channel, oldest message first (its capacity is not
  modelled: a send never blocks). \<open>finch\<close> is True once the finish channel is closed.
\<close>

record Feed =
  cluster :: string
  topic :: string
  endpointType :: string
  reqTss :: "string \<rightharpoonup> TsVbuuid option"
  actTss :: "string \<rightharpoonup> TsVbuuid option"
  rollTss :: "string \<rightharpoonup> TsVbuuid option"
  feeders :: "string \<rightharpoonup> BucketFeeder"
  kvdata :: "string \<rightharpoonup> KVData"
  engines :: "(string \<times> (64 word \<rightharpoonup> Engine)) list"
  endpoints :: "(string \<times> RouterEndpoint) list"
  backch :: "iface list"
  finch :: bool
  upstream :: "upcall list"

text \<open>\<^verbatim>\<open>v, ok := m[k]\<close> on a map of pointers: \<open>at m k\<close> is \<open>v\<close> (nil without an entry).\<close>

definition at :: "('k \<rightharpoonup> 'v option) \<Rightarrow> 'k \<Rightarrow> 'v option" where
  "at m k = (case m k of None \<Rightarrow> None | Some p \<Rightarrow> p)"

definition has :: "('k \<rightharpoonup> 'v) \<Rightarrow> 'k \<Rightarrow> bool" where
  "has m k = (m k \<noteq> None)"

subsection \<open>The environment\<close>

text \<open>
  What the feed asks of its collaborators.
  \<^item> \<open>UnixNano\<close>: the clock reading newOpaque takes.
  \<^item> \<open>clusterVBuckets pool bucket\<close>: the partitions of the bucket on the current node
    (ClusterInfoCache), \<open>None\<close> when any step of the lookup fails.
  \<^item> \<open>couchConnect\<close>, \<open>couchGetPool\<close>, \<open>couchGetBucket\<close>: whether the three steps of
    connectBucket succeed (cluster url; pool; pool and bucket).
  \<^item> \<open>GetFailoverLogs bucket vbnos\<close>: the failover logs of the bucket, a list of
    (branch id, sequence number) per partition, or an error; \<open>Latest flog\<close>: the latest
    branch id of a log (\<^verbatim>\<open>flog.Latest()\<close> of the dcp package), or an error.
  \<^item> \<open>NewUUID\<close>, \<open>OpenBucketFeed bucket topic uuid\<close>: opening a new upstream feed under
    the connection name newDCPConnectionName prints from the three.
  \<^item> \<open>feederStart\<close>, \<open>feederEnd\<close>: what the feeder answers to StartVbStreams and
    EndVbStreams.
  \<^item> \<open>feedback call\<close>: the messages the data path posts on the back channel while the
    feed waits for the answers to the upstream request \<open>call\<close>, in order of arrival.
  \<^item> \<open>patience\<close>: how many messages a wait reads from the back channel before its timer
    fires; the timer also fires when the channel has run dry.
  \<^item> \<open>EquivalentIP\<close>, \<open>Ping\<close>, \<open>epFactory\<close>: endpoint address resolution, liveness and
    construction.
\<close>

record Env =
  UnixNano :: "64 word"
  clusterVBuckets :: "string \<Rightarrow> string \<Rightarrow> vbno list option"
  couchConnect :: "string \<Rightarrow> bool"
  couchGetPool :: "string \<Rightarrow> bool"
  couchGetBucket :: "string \<Rightarrow> string \<Rightarrow> bool"
  GetFailoverLogs :: "string \<Rightarrow> vbno list \<Rightarrow> error + (vbno \<rightharpoonup> (64 word \<times> 64 word) list)"
  Latest :: "(64 word \<times> 64 word) list \<Rightarrow> error + 64 word"
  NewUUID :: "error + 64 word"
  OpenBucketFeed :: "string \<Rightarrow> string \<Rightarrow> 64 word \<Rightarrow> error + BucketFeeder"
  feederStart :: "BucketFeeder \<Rightarrow> 16 word \<Rightarrow> TsVbuuid option \<Rightarrow> error option"
  feederEnd :: "BucketFeeder \<Rightarrow> 16 word \<Rightarrow> TsVbuuid option \<Rightarrow> error option"
  feedback :: "upcall \<Rightarrow> iface list"
  patience :: nat
  EquivalentIP :: "string \<Rightarrow> string list \<Rightarrow> error + string"
  Ping :: "RouterEndpoint \<Rightarrow> bool"
  epFactory :: "string \<Rightarrow> string \<Rightarrow> string \<Rightarrow> error + RouterEndpoint"

text \<open>newOpaque: bits 26 to 41 of the clock.\<close>

definition newOpaque :: "Env \<Rightarrow> 16 word" where
  "newOpaque env = ucast (drop_bit 26 (UnixNano env) AND 0xFFFF)"

subsection \<open>Waiting for feedback\<close>

datatype verdict = Skip | Done | Ok

text \<open>
  waitOnFeedback: read the back channel until the callback says done or the timer fires,
  setting aside what the callback skips. The callback of the source is a closure that
  writes to variables of its caller; here it takes and returns them as \<open>w\<close>. \<open>n\<close>
  is the number of messages still read before the timer fires, \<open>msgs\<close> the messages set
  aside so far. The result is the error, the caller's variables, the messages set aside and
  what is left in the channel.
\<close>

fun waitLoop :: "(iface \<Rightarrow> 'w \<Rightarrow> verdict \<times> 'w) \<Rightarrow> nat \<Rightarrow> iface list \<Rightarrow> 'w \<Rightarrow> iface list
    \<Rightarrow> error option \<times> 'w \<times> iface list \<times> iface list" where
  "waitLoop callb n msgs w [] = (Some ErrorResponseTimeout, w, msgs, [])"
| "waitLoop callb n msgs w (msg # ch) =
     (if n = 0 then (Some ErrorResponseTimeout, w, msgs, msg # ch)
      else
        (case callb msg w of
           (Skip, w') \<Rightarrow> waitLoop callb (n - 1) (msgs @ [msg]) w' ch
         | (Done, w') \<Rightarrow> (None, w', msgs, ch)
         | (Ok, w') \<Rightarrow> waitLoop callb (n - 1) msgs w' ch))"

text \<open>
  The messages set aside go back on the channel behind what is left in it, each as
  \<^verbatim>\<open>[]interface{}{msg}\<close> where \<^verbatim>\<open>msg\<close> is the slice that was received.
\<close>

definition waitOnFeedback :: "Env \<Rightarrow> iface list \<Rightarrow> (iface \<Rightarrow> 'w \<Rightarrow> verdict \<times> 'w) \<Rightarrow> 'w \<Rightarrow> Feed
    \<Rightarrow> error option \<times> 'w \<times> Feed" where
  "waitOnFeedback env arrivals callb w feed =
     (case waitLoop callb (patience env) [] w (backch feed @ arrivals) of
        (err, w', msgs, ch) \<Rightarrow> (err, w', feed\<lparr>backch := ch @ map Slice msgs\<rparr>))"

record reqWait =
  rq_vbnos :: "vbno list"
  rq_rollTs :: TsVbuuid
  rq_failTs :: TsVbuuid
  rq_actTs :: TsVbuuid
  rq_err :: "error option"

definition streamRequestCallb :: "16 word \<Rightarrow> string \<Rightarrow> TsVbuuid option \<Rightarrow> iface \<Rightarrow> reqWait
    \<Rightarrow> verdict \<times> reqWait" where
  "streamRequestCallb opaque bucketn ts msg w =
     (case msg of
        StreamRequest val \<Rightarrow>
          if sr_bucket val = bucketn \<and> sr_opaque val = opaque \<and> Contains ts (sr_vbno val) then
            let w1 =
                 (if sr_status val = SUCCESS then
                    w\<lparr>rq_actTs := Append (rq_actTs w) (sr_vbno val) (sr_seqno val) (sr_vbuuid val) 0 0\<rparr>
                  else if sr_status val = ROLLBACK then
                    w\<lparr>rq_rollTs := Append (rq_rollTs w) (sr_vbno val) (sr_seqno val) (sr_vbuuid val) 0 0\<rparr>
                  else if sr_status val = NOT_MY_VBUCKET then
                    w\<lparr>rq_failTs := Append (rq_failTs w) (sr_vbno val) (sr_seqno val) (sr_vbuuid val) 0 0,
                      rq_err := Some ErrorNotMyVbucket\<rparr>
                  else
                    w\<lparr>rq_failTs := Append (rq_failTs w) (sr_vbno val) (sr_seqno val) (sr_vbuuid val) 0 0,
                      rq_err := Some ErrorStreamRequest\<rparr>);
                w2 = w1\<lparr>rq_vbnos := RemoveUint16 (sr_vbno val) (rq_vbnos w1)\<rparr>
            in if length (rq_vbnos w2) = 0 then (Done, w2) else (Ok, w2)
          else (Skip, w)
      | _ \<Rightarrow> (Skip, w))"

text \<open>
  waitStreamRequests returns (rollTs, failTs, actTs, err). With nothing to wait for it
  returns before it starts the timer; otherwise the data path's answers to the request
  arrive on the back channel while it waits.
\<close>

definition waitStreamRequests :: "Env \<Rightarrow> 16 word \<Rightarrow> string \<Rightarrow> string \<Rightarrow> TsVbuuid option \<Rightarrow> Feed
    \<Rightarrow> (TsVbuuid option \<times> TsVbuuid option \<times> TsVbuuid option \<times> error option) \<times> Feed" where
  "waitStreamRequests env opaque pooln bucketn ts feed =
     (let vbnos = GetVbnos ts;
          rollTs = NewTsVbuuid (GetPool ts) (GetBucket ts);
          failTs = NewTsVbuuid (GetPool ts) (GetBucket ts);
          actTs = NewTsVbuuid (GetPool ts) (GetBucket ts)
      in if length vbnos = 0 then ((Some rollTs, Some failTs, Some actTs, None), feed)
         else
           (case waitOnFeedback env (feedback env (StartVbStreams bucketn opaque ts))
                   (streamRequestCallb opaque bucketn ts)
                   \<lparr>rq_vbnos = vbnos, rq_rollTs = rollTs, rq_failTs = failTs, rq_actTs = actTs,
                     rq_err = None\<rparr> feed of
              (err1, w, feed') \<Rightarrow>
                ((Some (rq_rollTs w), Some (rq_failTs w), Some (rq_actTs w),
                  (if rq_err w = None then err1 else rq_err w)), feed')))"

record endWait =
  ew_vbnos :: "vbno list"
  ew_endTs :: TsVbuuid
  ew_failTs :: TsVbuuid
  ew_err :: "error option"

definition streamEndCallb :: "16 word \<Rightarrow> string \<Rightarrow> TsVbuuid option \<Rightarrow> iface \<Rightarrow> endWait
    \<Rightarrow> verdict \<times> endWait" where
  "streamEndCallb opaque bucketn ts msg w =
     (case msg of
        StreamEnd val \<Rightarrow>
          if se_bucket val = bucketn \<and> se_opaque val = opaque \<and> Contains ts (se_vbno val) then
            let w1 =
                 (if se_status val = SUCCESS then
                    w\<lparr>ew_endTs := Append (ew_endTs w) (se_vbno val) 0 0 0 0\<rparr>
                  else if se_status val = NOT_MY_VBUCKET then
                    w\<lparr>ew_failTs := Append (ew_failTs w) (se_vbno val) 0 0 0 0,
                      ew_err := Some ErrorNotMyVbucket\<rparr>
                  else
                    w\<lparr>ew_failTs := Append (ew_failTs w) (se_vbno val) 0 0 0 0,
                      ew_err := Some ErrorStreamEnd\<rparr>);
                w2 = w1\<lparr>ew_vbnos := RemoveUint16 (se_vbno val) (ew_vbnos w1)\<rparr>
            in if length (ew_vbnos w2) = 0 then (Done, w2) else (Ok, w2)
          else (Skip, w)
      | _ \<Rightarrow> (Skip, w))"

definition waitStreamEnds :: "Env \<Rightarrow> 16 word \<Rightarrow> string \<Rightarrow> TsVbuuid option \<Rightarrow> Feed
    \<Rightarrow> (TsVbuuid option \<times> TsVbuuid option \<times> error option) \<times> Feed" where
  "waitStreamEnds env opaque bucketn ts feed =
     (let vbnos = GetVbnos ts;
          endTs = NewTsVbuuid (GetPool ts) (GetBucket ts);
          failTs = NewTsVbuuid (GetPool ts) (GetBucket ts)
      in if length vbnos = 0 then ((Some endTs, Some failTs, None), feed)
         else
           (case waitOnFeedback env (feedback env (EndVbStreams bucketn opaque ts))
                   (streamEndCallb opaque bucketn ts)
                   \<lparr>ew_vbnos = vbnos, ew_endTs = endTs, ew_failTs = failTs, ew_err = None\<rparr> feed of
              (err1, w, feed') \<Rightarrow>
                ((Some (ew_endTs w), Some (ew_failTs w),
                  (if ew_err w = None then err1 else ew_err w)), feed')))"

subsection \<open>Buckets: cleanup, topology, upstream, data path\<close>

text \<open>
  cleanupBucket drops the bucket from every per-bucket map. Closing the feeder and the
  data-path worker acts on those objects only, not on a field of the feed.
\<close>

definition cleanupBucket :: "string \<Rightarrow> bool \<Rightarrow> Feed \<Rightarrow> Feed" where
  "cleanupBucket bucketn enginesOk feed =
     (let feed1 = (if enginesOk then feed\<lparr>engines := AList.delete bucketn (engines feed)\<rparr> else feed)
      in feed1\<lparr>reqTss := (reqTss feed1)(bucketn := None),
               actTss := (actTss feed1)(bucketn := None),
               rollTss := (rollTss feed1)(bucketn := None),
               feeders := (feeders feed1)(bucketn := None),
               kvdata := (kvdata feed1)(bucketn := None)\<rparr>)"

definition getLocalVbuckets :: "Env \<Rightarrow> string \<Rightarrow> string \<Rightarrow> error + vbno list" where
  "getLocalVbuckets env pooln bucketn =
     (case clusterVBuckets env pooln bucketn of
        None \<Rightarrow> Inl ErrorClusterInfo
      | Some vbnos \<Rightarrow> Inr vbnos)"

text \<open>connectBucket returns the name of the bucket it connected to.\<close>

definition connectBucket :: "Env \<Rightarrow> string \<Rightarrow> string \<Rightarrow> string \<Rightarrow> error + string" where
  "connectBucket env clustern pooln bucketn =
     (if \<not> couchConnect env (''http://'' @ clustern) then Inl ErrorDCPConnection
      else if \<not> couchGetPool env pooln then Inl ErrorDCPPool
      else if \<not> couchGetBucket env pooln bucketn then Inl ErrorDCPBucket
      else Inr bucketn)"

text \<open>
  The loop of bucketDetails over the partitions: the latest branch id of each failover
  log, \<open>ErrorInvalidVbucket\<close> for a partition whose log is missing or empty.
\<close>

fun latestVbuuids :: "Env \<Rightarrow> (vbno \<rightharpoonup> (64 word \<times> 64 word) list) \<Rightarrow> vbno list
    \<Rightarrow> error + 64 word list" where
  "latestVbuuids env flogs [] = Inr []"
| "latestVbuuids env flogs (vb # vbnos) =
     (let flog = (case flogs vb of None \<Rightarrow> [] | Some flog \<Rightarrow> flog) in
      if length flog < 1 then Inl ErrorInvalidVbucket
      else
        (case Latest env flog of
           Inl e \<Rightarrow> Inl e
         | Inr latestVbuuid \<Rightarrow>
             (case latestVbuuids env flogs vbnos of
                Inl e \<Rightarrow> Inl e
              | Inr vbuuids \<Rightarrow> Inr (latestVbuuid # vbuuids))))"

definition bucketDetails :: "Env \<Rightarrow> Feed \<Rightarrow> string \<Rightarrow> string \<Rightarrow> vbno list \<Rightarrow> error + 64 word list" where
  "bucketDetails env feed pooln bucketn vbnos =
     (case connectBucket env (cluster feed) pooln bucketn of
        Inl e \<Rightarrow> Inl e
      | Inr _ \<Rightarrow>
          (case GetFailoverLogs env bucketn vbnos of
             Inl e \<Rightarrow> Inl e
           | Inr flogs \<Rightarrow> latestVbuuids env flogs vbnos))"

text \<open>
  bucketFeed returns (feeder, err). Every caller discards the feeder when the error is not
  nil, and the feeder is not nil when the error is, so the result is the error or the
  feeder. It does not store the feeder: its callers do.
\<close>

definition bucketFeed :: "Env \<Rightarrow> 16 word \<Rightarrow> bool \<Rightarrow> bool \<Rightarrow> TsVbuuid option \<Rightarrow> Feed
    \<Rightarrow> (error + BucketFeeder) \<times> Feed" where
  "bucketFeed env opaque stop start reqTs feed =
     (let pooln = GetPool reqTs; bucketn = GetBucket reqTs; vbnos = GetVbnos reqTs in
      case bucketDetails env feed pooln bucketn vbnos of
        Inl _ \<Rightarrow> (Inl ErrorFeeder, feed)
      | Inr _ \<Rightarrow>
          (case (case feeders feed bucketn of
                   Some feeder \<Rightarrow> Inr feeder
                 | None \<Rightarrow>
                     (case connectBucket env (cluster feed) pooln bucketn of
                        Inl _ \<Rightarrow> Inl ErrorFeeder
                      | Inr bname \<Rightarrow>
                          (case NewUUID env of
                             Inl err \<Rightarrow> Inl err
                           | Inr uuid \<Rightarrow>
                               (case OpenBucketFeed env bname (topic feed) uuid of
                                  Inl _ \<Rightarrow> Inl ErrorFeeder
                                | Inr feeder \<Rightarrow> Inr feeder)))) of
             Inl err \<Rightarrow> (Inl err, feed)
           | Inr feeder \<Rightarrow>
               if stop then
                 (let feed1 = feed\<lparr>upstream := upstream feed @ [EndVbStreams bucketn opaque reqTs]\<rparr> in
                  case feederEnd env feeder opaque reqTs of
                    Some _ \<Rightarrow> (Inl ErrorFeeder, feed1)
                  | None \<Rightarrow> (Inr feeder, feed1))
               else if start then
                 (let feed1 = feed\<lparr>upstream := upstream feed @ [StartVbStreams bucketn opaque reqTs]\<rparr> in
                  case feederStart env feeder opaque reqTs of
                    Some _ \<Rightarrow> (Inl ErrorFeeder, feed1)
                  | None \<Rightarrow> (Inr feeder, feed1))
               else (Inr feeder, feed)))"

text \<open>
  startDataPath: the worker of the bucket, a new one when there is none. UpdateTs on an
  existing worker changes that worker only.
\<close>

definition startDataPath :: "string \<Rightarrow> BucketFeeder \<Rightarrow> TsVbuuid option \<Rightarrow> Feed \<Rightarrow> KVData" where
  "startDataPath bucketn feeder ts feed =
     (case kvdata feed bucketn of
        Some kv \<Rightarrow> kv
      | None \<Rightarrow> KVData bucketn)"

subsection \<open>Subscribers, engines and endpoints\<close>

text \<open>
  A request that carries subscribers. GetEvaluators and GetRouters return a Go map or an
  error; the map is the list of its key-value pairs (keys distinct) in the order
  \<^verbatim>\<open>range\<close> visits them, its \<^verbatim>\<open>len\<close> the length of the list.
\<close>

record Subscriber =
  GetEvaluators :: "error + (64 word \<times> Evaluator) list"
  GetRouters :: "error + (64 word \<times> Router) list"

definition subscribers :: "'a Subscriber_scheme
    \<Rightarrow> error + ((64 word \<times> Evaluator) list \<times> (64 word \<times> Router) list)" where
  "subscribers req =
     (case GetEvaluators req of
        Inl _ \<Rightarrow> Inl ErrorInconsistentFeed
      | Inr evaluators \<Rightarrow>
          (case GetRouters req of
             Inl _ \<Rightarrow> Inl ErrorInconsistentFeed
           | Inr routers \<Rightarrow>
               if length evaluators \<noteq> length routers then Inl ErrorInconsistentFeed
               else if list_ex (\<lambda>(uuid, _). \<not> has (map_of routers) uuid) evaluators
               then Inl ErrorInconsistentFeed
               else Inr (evaluators, routers)))"

definition endpointRaddrs :: "Feed \<Rightarrow> string list" where
  "endpointRaddrs feed = map fst (endpoints feed)"

definition getEndpoint :: "Env \<Rightarrow> string \<Rightarrow> Feed \<Rightarrow> string \<times> RouterEndpoint option \<times> error option" where
  "getEndpoint env raddr feed =
     (case EquivalentIP env raddr (endpointRaddrs feed) of
        Inl err \<Rightarrow> (raddr, None, Some err)
      | Inr eqRaddr \<Rightarrow>
          (let raddr1 = (if raddr \<noteq> eqRaddr then eqRaddr else raddr)
           in (raddr1, map_of (endpoints feed) raddr1, None)))"

text \<open>
  The body of the loop over endpoint addresses, which startEndpoints and repairEndpoints
  both spell out: look the address up, build a new endpoint when none is there or the one
  there does not answer, and store it under both names. An error is kept in \<open>err\<close> and the
  loop goes on.
\<close>

definition restartEndpoint :: "Env \<Rightarrow> string \<Rightarrow> error option \<times> Feed \<Rightarrow> error option \<times> Feed" where
  "restartEndpoint env raddr s =
     (case s of (err, feed) \<Rightarrow>
        (case getEndpoint env raddr feed of
           (raddr1, endpoint, Some e) \<Rightarrow> (Some e, feed)
         | (raddr1, endpoint, None) \<Rightarrow>
             (case (case endpoint of
                      None \<Rightarrow> epFactory env (topic feed) (endpointType feed) raddr
                    | Some ep0 \<Rightarrow>
                        if \<not> Ping env ep0
                        then epFactory env (topic feed) (endpointType feed) raddr
                        else Inr ep0) of
                Inl e \<Rightarrow> (Some e, feed)
              | Inr ep \<Rightarrow>
                  (err, feed\<lparr>endpoints :=
                     AList.update raddr1 ep (AList.update raddr ep (endpoints feed))\<rparr>))))"

text \<open>startEndpoints ends with \<^verbatim>\<open>return nil\<close>: the error it kept is not returned.\<close>

definition startEndpoints :: "Env \<Rightarrow> (64 word \<times> Router) list \<Rightarrow> Feed \<Rightarrow> error option \<times> Feed" where
  "startEndpoints env routers feed =
     (case fold (\<lambda>(_, router). fold (restartEndpoint env) (rt_endpoints router)) routers (None, feed) of
        (err, feed') \<Rightarrow> (None, feed'))"

definition NewEngine :: "64 word \<Rightarrow> Evaluator \<Rightarrow> Router option \<Rightarrow> Engine" where
  "NewEngine uuid evaluator router =
     \<lparr>en_uuid = uuid, en_evaluator = evaluator, en_router = router\<rparr>"

text \<open>
  The body of the loop of processSubscribers over the evaluators.
\<close>

definition addEngine :: "(64 word \<times> Router) list \<Rightarrow> 64 word \<times> Evaluator \<Rightarrow> Feed \<Rightarrow> Feed" where
  "addEngine routers p feed =
     (case p of (uuid, evaluator) \<Rightarrow>
        (let bucketn = ev_bucket evaluator;
             m = (case map_of (engines feed) bucketn of None \<Rightarrow> Map.empty | Some m \<Rightarrow> m);
             engine = NewEngine uuid evaluator (map_of routers uuid)
         in feed\<lparr>engines := AList.update bucketn (m(uuid \<mapsto> engine)) (engines feed)\<rparr>))"

definition processSubscribers :: "Env \<Rightarrow> 'a Subscriber_scheme \<Rightarrow> Feed \<Rightarrow> error option \<times> Feed" where
  "processSubscribers env req feed =
     (case subscribers req of
        Inl err \<Rightarrow> (Some err, feed)
      | Inr (evaluators, routers) \<Rightarrow>
          (case startEndpoints env routers feed of
             (Some err, feed1) \<Rightarrow> (Some err, feed1)
           | (None, feed1) \<Rightarrow> (None, fold (addEngine routers) evaluators feed1)))"

subsection \<open>Commands\<close>

record AddBucketsRequest = Subscriber +
  ReqTimestamps :: "TsVbuuid list"

record MutationTopicRequest = AddBucketsRequest +
  EndpointType :: string

text \<open>
  The body of the loop of start over the request timestamps, from the error so far and
  the feed to the error and the feed after this bucket.
\<close>

definition startBucket :: "Env \<Rightarrow> 16 word \<Rightarrow> TsVbuuid \<Rightarrow> error option \<times> Feed \<Rightarrow> error option \<times> Feed" where
  "startBucket env opaque ts0 s =
     (case s of (err, feed) \<Rightarrow>
        (let pooln = Pool ts0; bucketn = Bucket ts0 in
         case getLocalVbuckets env pooln bucketn of
           Inl e \<Rightarrow> (Some e, cleanupBucket bucketn False feed)
         | Inr vbnos \<Rightarrow>
             (let ts1 = SelectByVbuckets (Some ts0) vbnos;
                  actTs = at (actTss feed) bucketn;
                  ts2 = (if has (actTss feed) bucketn
                         then FilterByVbuckets ts1 (GetVbnos actTs) else ts1);
                  rollTs0 = at (rollTss feed) bucketn;
                  rollTs = (if has (rollTss feed) bucketn
                            then FilterByVbuckets rollTs0 (GetVbnos ts2) else rollTs0);
                  reqTs0 = at (reqTss feed) bucketn;
                  ts = (if has (reqTss feed) bucketn
                        then FilterByVbuckets ts2 (GetVbnos reqTs0) else ts2);
                  reqTs = Union ts reqTs0
              in case bucketFeed env opaque False True ts feed of
                   (Inl e, feed1) \<Rightarrow> (Some e, cleanupBucket bucketn False feed1)
                 | (Inr feeder, feed1) \<Rightarrow>
                     (let feed2 = feed1\<lparr>feeders := (feeders feed1)(bucketn \<mapsto> feeder)\<rparr>;
                          kv = startDataPath bucketn feeder ts feed2;
                          feed3 = feed2\<lparr>kvdata := (kvdata feed2)(bucketn \<mapsto> kv)\<rparr>
                      in case waitStreamRequests env opaque pooln bucketn ts feed3 of
                           ((r, f, a, e), feed4) \<Rightarrow>
                             (let feed5 = feed4\<lparr>rollTss := (rollTss feed4)(bucketn \<mapsto> Union rollTs r)\<rparr>;
                                  feed6 = feed5\<lparr>actTss := (actTss feed5)(bucketn \<mapsto> Union actTs a)\<rparr>;
                                  reqTs1 = FilterByVbuckets reqTs (GetVbnos r);
                                  reqTs2 = FilterByVbuckets reqTs1 (GetVbnos a);
                                  reqTs3 = FilterByVbuckets reqTs2 (GetVbnos f);
                                  feed7 = feed6\<lparr>reqTss := (reqTss feed6)(bucketn \<mapsto> reqTs3)\<rparr>
                              in ((if e \<noteq> None then e else err), feed7))))))"

definition start :: "Env \<Rightarrow> 'a MutationTopicRequest_scheme \<Rightarrow> Feed \<Rightarrow> error option \<times> Feed" where
  "start env req feed =
     (let feed0 = feed\<lparr>endpointType := EndpointType req\<rparr> in
      case processSubscribers env req feed0 of
        (Some err, feed1) \<Rightarrow> (Some err, feed1)
      | (None, feed1) \<Rightarrow>
          (let opaque = newOpaque env
           in fold (startBucket env opaque) (ReqTimestamps req) (None, feed1)))"

text \<open>
  repairEndpoints: the loop keeps the last error in \<open>err\<close>; the function ends with
  \<^verbatim>\<open>return nil\<close>. Its second loop hands the endpoints to every data-path worker
  (AddEngines), which changes no field of the feed.
\<close>

definition repairEndpoints :: "Env \<Rightarrow> string list \<Rightarrow> Feed \<Rightarrow> error option \<times> Feed" where
  "repairEndpoints env raddrs feed =
     (case fold (restartEndpoint env) raddrs (None, feed) of
        (err, feed') \<Rightarrow> (None, feed'))"

text \<open>The body of the loop of restartVbuckets.\<close>

definition restartBucket :: "Env \<Rightarrow> 16 word \<Rightarrow> TsVbuuid \<Rightarrow> error option \<times> Feed \<Rightarrow> error option \<times> Feed" where
  "restartBucket env opaque ts0 s =
     (case s of (err, feed) \<Rightarrow>
        (let pooln = Pool ts0; bucketn = Bucket ts0 in
         case getLocalVbuckets env pooln bucketn of
           Inl e \<Rightarrow> (Some e, cleanupBucket bucketn False feed)
         | Inr vbnos \<Rightarrow>
             (let ts1 = SelectByVbuckets (Some ts0) vbnos;
                  actTs = at (actTss feed) bucketn;
                  ts2 = (if has (actTss feed) bucketn
                         then FilterByVbuckets ts1 (GetVbnos actTs) else ts1);
                  rollTs0 = at (rollTss feed) bucketn;
                  rollTs = (if has (rollTss feed) bucketn
                            then FilterByVbuckets rollTs0 (GetVbnos ts2) else rollTs0);
                  reqTs0 = at (reqTss feed) bucketn;
                  ts = (if has (reqTss feed) bucketn
                        then FilterByVbuckets ts2 (GetVbnos reqTs0) else ts2);
                  reqTs = Union ts ts
              in case bucketFeed env opaque False True ts feed of
                   (Inl e, feed1) \<Rightarrow> (Some e, cleanupBucket bucketn False feed1)
                 | (Inr feeder, feed1) \<Rightarrow>
                     (let feed2 = feed1\<lparr>feeders := (feeders feed1)(bucketn \<mapsto> feeder)\<rparr>;
                          feed3 = (if \<not> has (kvdata feed2) bucketn
                                   then feed2\<lparr>kvdata := (kvdata feed2)(bucketn \<mapsto>
                                          startDataPath bucketn feeder ts feed2)\<rparr>
                                   else feed2)
                      in case waitStreamRequests env opaque pooln bucketn ts feed3 of
                           ((r, f, a, e), feed4) \<Rightarrow>
                             (let feed5 = feed4\<lparr>rollTss := (rollTss feed4)(bucketn \<mapsto> Union rollTs r)\<rparr>;
                                  feed6 = feed5\<lparr>actTss := (actTss feed5)(bucketn \<mapsto> Union actTs a)\<rparr>;
                                  reqTs1 = FilterByVbuckets reqTs (GetVbnos r);
                                  reqTs2 = FilterByVbuckets reqTs1 (GetVbnos a);
                                  reqTs3 = FilterByVbuckets reqTs2 (GetVbnos f);
                                  feed7 = feed6\<lparr>reqTss := (reqTss feed6)(bucketn \<mapsto> reqTs3)\<rparr>
                              in ((if e \<noteq> None then e else err), feed7))))))"

text \<open>
  restartVbuckets takes the restart timestamps of the request. It first repairs every
  endpoint the feed knows and ignores the outcome.
\<close>

definition restartVbuckets :: "Env \<Rightarrow> TsVbuuid list \<Rightarrow> Feed \<Rightarrow> error option \<times> Feed" where
  "restartVbuckets env restartTimestamps feed =
     (case repairEndpoints env (endpointRaddrs feed) feed of
        (_, feed0) \<Rightarrow>
          (let opaque = newOpaque env
           in fold (restartBucket env opaque) restartTimestamps (None, feed0)))"



text \<open>
  The body of the loop of addBuckets. The source calls FilterByVbuckets with the active
  partitions and does not assign the result (\<open>unused\<close>), and it unites \<open>ts\<close> with
  itself.
\<close>

definition addBucket :: "Env \<Rightarrow> 16 word \<Rightarrow> TsVbuuid \<Rightarrow> error option \<times> Feed \<Rightarrow> error option \<times> Feed" where
  "addBucket env opaque ts0 s =
     (case s of (err, feed) \<Rightarrow>
        (let pooln = Pool ts0; bucketn = Bucket ts0 in
         case getLocalVbuckets env pooln bucketn of
           Inl e \<Rightarrow> (Some e, cleanupBucket bucketn False feed)
         | Inr vbnos \<Rightarrow>
             (let ts1 = SelectByVbuckets (Some ts0) vbnos;
                  actTs = at (actTss feed) bucketn;
                  unused = (if has (actTss feed) bucketn
                            then FilterByVbuckets ts1 (GetVbnos actTs) else ts1);
                  rollTs0 = at (rollTss feed) bucketn;
                  rollTs = (if has (rollTss feed) bucketn
                            then FilterByVbuckets rollTs0 (GetVbnos ts1) else rollTs0);
                  reqTs0 = at (reqTss feed) bucketn;
                  ts = (if has (reqTss feed) bucketn
                        then FilterByVbuckets ts1 (GetVbnos reqTs0) else ts1);
                  reqTs = Union ts ts
              in case bucketFeed env opaque False True ts feed of
                   (Inl e, feed1) \<Rightarrow> (Some e, cleanupBucket bucketn False feed1)
                 | (Inr feeder, feed1) \<Rightarrow>
                     (let feed2 = feed1\<lparr>feeders := (feeders feed1)(bucketn \<mapsto> feeder)\<rparr>;
                          kv = startDataPath bucketn feeder ts feed2;
                          feed3 = feed2\<lparr>kvdata := (kvdata feed2)(bucketn \<mapsto> kv)\<rparr>
                      in case waitStreamRequests env opaque pooln bucketn ts feed3 of
                           ((r, f, a, e), feed4) \<Rightarrow>
                             (let feed5 = feed4\<lparr>rollTss := (rollTss feed4)(bucketn \<mapsto> Union rollTs r)\<rparr>;
                                  feed6 = feed5\<lparr>actTss := (actTss feed5)(bucketn \<mapsto> Union actTs a)\<rparr>;
                                  reqTs1 = FilterByVbuckets reqTs (GetVbnos r);
                                  reqTs2 = FilterByVbuckets reqTs1 (GetVbnos a);
                                  reqTs3 = FilterByVbuckets reqTs2 (GetVbnos f);
                                  feed7 = feed6\<lparr>reqTss := (reqTss feed6)(bucketn \<mapsto> reqTs3)\<rparr>
                              in ((if e \<noteq> None then e else err), feed7))))))"

definition addBuckets :: "Env \<Rightarrow> 'a AddBucketsRequest_scheme \<Rightarrow> Feed \<Rightarrow> error option \<times> Feed" where
  "addBuckets env req feed =
     (case processSubscribers env req feed of
        (Some err, feed1) \<Rightarrow> (Some err, feed1)
      | (None, feed1) \<Rightarrow>
          (let opaque = newOpaque env
           in fold (addBucket env opaque) (ReqTimestamps req) (None, feed1)))"

definition delBuckets :: "string list \<Rightarrow> Feed \<Rightarrow> error option \<times> Feed" where
  "delBuckets buckets feed = (None, fold (\<lambda>bucketn. cleanupBucket bucketn True) buckets feed)"


text \<open>
  shutdown closes the feeders, the workers and the endpoints, empties \<open>kvdata\<close> and
  closes the finish channel.
\<close>

definition shutdown :: "Feed \<Rightarrow> Feed" where
  "shutdown feed = feed\<lparr>kvdata := Map.empty, finch := True\<rparr>"

subsection \<open>The back channel between commands\<close>

text \<open>
  One turn of genServer on a message from the back channel. Append on a nil timestamp
  dereferences nil: the panic is recovered by genServer, which shuts the feed down and
  ends (\<open>Crashed\<close>).
\<close>

datatype turn = Continue Feed | Crashed Feed

definition backchTurn :: "iface \<Rightarrow> Feed \<Rightarrow> turn" where
  "backchTurn msg feed =
     (case msg of
        StreamRequest v \<Rightarrow>
          (let reqTs = at (reqTss feed) (sr_bucket v); ok = has (reqTss feed) (sr_bucket v) in
           case Get reqTs (sr_vbno v) of
             Inl _ \<Rightarrow> Continue feed
           | Inr (seqno, vbuuid, sStart, sEnd) \<Rightarrow>
               if ok then
                 (let reqTs' = FilterByVbuckets reqTs [sr_vbno v];
                      feed1 = feed\<lparr>reqTss := (reqTss feed)(sr_bucket v \<mapsto> reqTs')\<rparr>
                  in if sr_status v = ROLLBACK then
                       (case at (rollTss feed1) (sr_bucket v) of
                          None \<Rightarrow> Crashed (shutdown feed1)
                        | Some rollTs \<Rightarrow>
                            Continue (feed1\<lparr>rollTss := (rollTss feed1)(sr_bucket v \<mapsto>
                              Some (Append rollTs (sr_vbno v) (sr_seqno v) vbuuid sStart sEnd))\<rparr>))
                     else if sr_status v = SUCCESS then
                       (case at (actTss feed1) (sr_bucket v) of
                          None \<Rightarrow> Crashed (shutdown feed1)
                        | Some actTs \<Rightarrow>
                            Continue (feed1\<lparr>actTss := (actTss feed1)(sr_bucket v \<mapsto>
                              Some (Append actTs (sr_vbno v) seqno vbuuid sStart sEnd))\<rparr>))
                     else Continue feed1)
               else Continue feed)
      | StreamEnd v \<Rightarrow>
          (let reqTs = FilterByVbuckets (at (reqTss feed) (se_bucket v)) [se_vbno v];
               feed1 = feed\<lparr>reqTss := (reqTss feed)(se_bucket v \<mapsto> reqTs)\<rparr>;
               actTs = FilterByVbuckets (at (actTss feed1) (se_bucket v)) [se_vbno v];
               feed2 = feed1\<lparr>actTss := (actTss feed1)(se_bucket v \<mapsto> actTs)\<rparr>;
               rollTs = FilterByVbuckets (at (rollTss feed2) (se_bucket v)) [se_vbno v];
               feed3 = feed2\<lparr>rollTss := (rollTss feed2)(se_bucket v \<mapsto> rollTs)\<rparr>
           in Continue feed3)
      | FinKVData v \<Rightarrow>
          (case actTss feed (fin_bucket v) of
             Some (Some actTs) \<Rightarrow>
               if Len actTs = 0 then Continue (cleanupBucket (fin_bucket v) False feed)
               else Continue feed
           | _ \<Rightarrow> Continue feed)
      | Slice _ \<Rightarrow> Continue feed)"

text \<open>genServer takes the oldest message off the back channel and handles it.\<close>

definition drain :: "Feed \<Rightarrow> turn" where
  "drain feed =
     (case backch feed of
        [] \<Rightarrow> Continue feed
      | msg # ch \<Rightarrow> backchTurn msg (feed\<lparr>backch := ch\<rparr>))"

subsection \<open>Reading a feed\<close>

text \<open>
  \<open>entriesOf p\<close> is the list of entries of a timestamp, empty for nil.
  \<open>vbnosAt m b\<close> is the list of partitions of the timestamp a map holds for a bucket,
  empty when the bucket has no entry or a nil one; \<open>entriesAt\<close> is the list of its
  entries. \<open>feedOf\<close> is the feed a turn ends with.
\<close>

definition entriesOf :: "TsVbuuid option \<Rightarrow> vbentry list" where
  "entriesOf p = (case p of None \<Rightarrow> [] | Some ts \<Rightarrow> Entries ts)"

definition vbnosAt :: "(string \<rightharpoonup> TsVbuuid option) \<Rightarrow> string \<Rightarrow> vbno list" where
  "vbnosAt m b = GetVbnos (at m b)"

definition entriesAt :: "(string \<rightharpoonup> TsVbuuid option) \<Rightarrow> string \<Rightarrow> vbentry list" where
  "entriesAt m b = entriesOf (at m b)"

text \<open>
  The entry a wait records for a partition whose answer it has read: waitStreamRequests
  keeps the sequence number and branch and sets the range to 0, 0; waitStreamEnds keeps the
  partition only.
\<close>

definition zeroed :: "vbentry \<Rightarrow> vbentry" where
  "zeroed e = (case e of (vb, seqno, vbuuid, _, _) \<Rightarrow> (vb, seqno, vbuuid, 0, 0))"

definition ended :: "vbno \<Rightarrow> vbentry" where
  "ended vb = (vb, 0, 0, 0, 0)"

fun feedOf :: "turn \<Rightarrow> Feed" where
  "feedOf (Continue feed) = feed"
| "feedOf (Crashed feed) = feed"


subsection \<open>Concrete feeds and environments\<close>

text \<open>
  NewFeed: the feed as the constructor leaves it (endpointType is not set before the first
  start).
\<close>

definition NewFeed :: "string \<Rightarrow> string \<Rightarrow> Feed" where
  "NewFeed topicn clustern =
     \<lparr>cluster = clustern, topic = topicn, endpointType = [],
      reqTss = Map.empty, actTss = Map.empty, rollTss = Map.empty,
      feeders = Map.empty, kvdata = Map.empty, engines = [], endpoints = [],
      backch = [], finch = False, upstream = []\<rparr>"

text \<open>
  An environment in which every lookup and every upstream call succeeds, partitions 0 to
  3 of every bucket are local, and the data path posts nothing: every wait times out.
\<close>

definition quietEnv :: Env where
  "quietEnv =
     \<lparr>UnixNano = 0,
      clusterVBuckets = (\<lambda>_ _. Some [0, 1, 2, 3]),
      couchConnect = (\<lambda>_. True),
      couchGetPool = (\<lambda>_. True),
      couchGetBucket = (\<lambda>_ _. True),
      GetFailoverLogs = (\<lambda>_ _. Inr (\<lambda>_. Some [(1, 0)])),
      Latest = (\<lambda>_. Inr 1),
      NewUUID = Inr 7,
      OpenBucketFeed = (\<lambda>b _ _. Inr (BucketFeeder b)),
      feederStart = (\<lambda>_ _ _. None),
      feederEnd = (\<lambda>_ _ _. None),
      feedback = (\<lambda>_. []),
      patience = 16,
      EquivalentIP = (\<lambda>raddr _. Inr raddr),
      Ping = (\<lambda>_. True),
      epFactory = (\<lambda>_ _ _. Inr (RouterEndpoint 0))\<rparr>"

text \<open>
  The answers of a data path whose upstream accepts everything: SUCCESS for every
  partition of a stream request, with the sequence number and branch requested, and
  SUCCESS for every partition of a stream end.
\<close>

fun acks :: "upcall \<Rightarrow> iface list" where
  "acks (StartVbStreams b opaque ts) =
     map (\<lambda>(vb, seqno, vbuuid, _, _).
            StreamRequest \<lparr>sr_bucket = b, sr_opaque = opaque, sr_status = SUCCESS,
                           sr_vbno = vb, sr_vbuuid = vbuuid, sr_seqno = seqno\<rparr>)
       (case ts of None \<Rightarrow> [] | Some t \<Rightarrow> Entries t)"
| "acks (EndVbStreams b opaque ts) =
     map (\<lambda>vb. StreamEnd \<lparr>se_bucket = b, se_opaque = opaque, se_status = SUCCESS, se_vbno = vb\<rparr>)
       (GetVbnos ts)"

definition ackEnv :: Env where
  "ackEnv = quietEnv\<lparr>feedback := acks\<rparr>"

text \<open>A timestamp of bucket b in pool default, and a request without subscribers.\<close>

definition tsOf :: "vbentry list \<Rightarrow> TsVbuuid" where
  "tsOf es = \<lparr>Pool = ''default'', Bucket = ''b'', Entries = es\<rparr>"

definition request :: "string \<Rightarrow> TsVbuuid list \<Rightarrow> MutationTopicRequest" where
  "request typ tss =
     \<lparr>GetEvaluators = Inr [], GetRouters = Inr [], ReqTimestamps = tss, EndpointType = typ\<rparr>"

text \<open>A feed whose bucket b has the given outstanding, active and rolled-back entries.\<close>

definition feedWith :: "vbentry list \<Rightarrow> vbentry list \<Rightarrow> vbentry list \<Rightarrow> Feed" where
  "feedWith req act roll =
     (NewFeed ''topic'' ''localhost:9000'')
       \<lparr>endpointType := ''dataport'',
        reqTss := [''b'' \<mapsto> Some (tsOf req)],
        actTss := [''b'' \<mapsto> Some (tsOf act)],
        rollTss := [''b'' \<mapsto> Some (tsOf roll)],
        feeders := [''b'' \<mapsto> BucketFeeder ''b''],
        kvdata := [''b'' \<mapsto> KVData ''b'']\<rparr>"

text \<open>
  A feed with partition 1 of bucket b outstanding from an earlier batch (opaque 5), whose
  SUCCESS answer \<open>lateAck\<close> sits in the back channel.
\<close>

definition lateAck :: iface where
  "lateAck = StreamRequest \<lparr>sr_bucket = ''b'', sr_opaque = 5, sr_status = SUCCESS,
                            sr_vbno = 1, sr_vbuuid = 8, sr_seqno = 200\<rparr>"

definition staleFeed :: Feed where
  "staleFeed = (feedWith [(1, 200, 8, 0, 0)] [] [])\<lparr>backch := [lateAck]\<rparr>"

text \<open>An environment whose endpoint factory cannot reach the address down:9100.\<close>

definition flakyEnv :: Env where
  "flakyEnv =
     quietEnv\<lparr>epFactory := (\<lambda>_ _ raddr.
        if raddr = ''down:9100'' then Inl (ErrorTransport ''connection refused'')
        else Inr (RouterEndpoint 1))\<rparr>"

text \<open>A ROLLBACK answer for partition 0 of bucket b, at sequence number 50 on branch 9.\<close>

definition rollbackMsg :: controlStreamRequest where
  "rollbackMsg = \<lparr>sr_bucket = ''b'', sr_opaque = 0, sr_status = ROLLBACK,
                   sr_vbno = 0, sr_vbuuid = 9, sr_seqno = 50\<rparr>"





section \<open>Properties\<close>

subsection \<open>Timestamps\<close>

lemma Get_absent: "vb \<notin> set (GetVbnos p) \<Longrightarrow> Get p vb = Inl ErrorInvalidVbucket"
proof (cases p)
  case None
  then show ?thesis by (simp add: Get_def)
next
  case (Some ts)
  assume "vb \<notin> set (GetVbnos p)"
  with Some have "map_of (Entries ts) vb = None"
    by (simp add: GetVbnos_def map_of_eq_None_iff)
  with Some show ?thesis by (simp add: Get_def)
qed

lemma Get_present: "map_of (entriesOf p) vb = Some e \<Longrightarrow> Get p vb = Inr e"
  by (auto simp: Get_def entriesOf_def split: option.splits)

lemma present_has: "map_of (entriesAt m b) vb = Some e \<Longrightarrow> has m b"
  by (auto simp: entriesAt_def entriesOf_def at_def has_def split: option.splits)

subsection \<open>Waiting for no partition\<close>

text \<open>
  C10. When the expected timestamp has no partitions, waitStreamRequests and
  waitStreamEnds return at once: the output timestamps are empty, the error is nil, and the
  feed, its back channel included, is as it was. Neither the messages the data path would
  post nor the timer play a part.
\<close>

theorem wait_for_no_partition_returns_at_once:
  "GetVbnos ts = [] \<Longrightarrow>
     waitStreamRequests env opaque pooln bucketn ts feed =
       ((Some \<lparr>Pool = GetPool ts, Bucket = GetBucket ts, Entries = []\<rparr>,
         Some \<lparr>Pool = GetPool ts, Bucket = GetBucket ts, Entries = []\<rparr>,
         Some \<lparr>Pool = GetPool ts, Bucket = GetBucket ts, Entries = []\<rparr>, None), feed) \<and>
     waitStreamEnds env opaque bucketn ts feed =
       ((Some \<lparr>Pool = GetPool ts, Bucket = GetBucket ts, Entries = []\<rparr>,
         Some \<lparr>Pool = GetPool ts, Bucket = GetBucket ts, Entries = []\<rparr>, None), feed)"
  by (simp add: waitStreamRequests_def waitStreamEnds_def NewTsVbuuid_def Let_def)

theorem wait_for_no_partition_witness:
  "GetVbnos (Some (tsOf [])) = [] \<and>
   waitStreamRequests ackEnv 0 ''default'' ''b'' (Some (tsOf [])) staleFeed =
     ((Some (tsOf []), Some (tsOf []), Some (tsOf []), None), staleFeed) \<and>
   waitStreamEnds ackEnv 0 ''b'' (Some (tsOf [])) staleFeed =
     ((Some (tsOf []), Some (tsOf []), None), staleFeed)"
proof -
  have h: "GetVbnos (Some (tsOf [])) = []"
    by (simp add: GetVbnos_def tsOf_def)
  show ?thesis
    using h wait_for_no_partition_returns_at_once [OF h, of ackEnv 0 "''default''" "''b''" staleFeed]
    by (simp add: GetPool_def GetBucket_def tsOf_def)
qed

subsection \<open>Messages set aside by a wait\<close>

text \<open>
  A message whose element 0 is a slice is dropped by a turn of genServer and set aside
  again by every wait.
\<close>

lemma wrapped_message_dropped: "backchTurn (Slice m) feed = Continue feed"
  by (simp add: backchTurn_def)

lemma wrapped_message_skipped:
  "streamRequestCallb opaque b ts (Slice m) w = (Skip, w)"
  "streamEndCallb opaque b ts (Slice m) w' = (Skip, w')"
  by (simp_all add: streamRequestCallb_def streamEndCallb_def)

text \<open>
  C2. A message that a wait sets aside should come back on the back channel in a form the
  later turns still handle. It does not: waitOnFeedback sends \<^verbatim>\<open>[]interface{}{msg}\<close>
  where \<^verbatim>\<open>msg\<close> already is the slice received, so element 0 of what comes back is a
  slice and genServer drops it. Here the late SUCCESS for partition 1 is set aside by a
  wait for partition 0; afterwards it is on the channel as \<open>Slice lateAck\<close>, the next
  turn leaves partition 1 outstanding and not active, whereas the same turn on the feed
  before the wait makes it active.
\<close>

theorem set_aside_message_comes_back_wrapped:
  "backch (snd (waitStreamRequests quietEnv 0 ''default'' ''b''
      (Some (tsOf [(0, 100, 7, 0, 0)])) staleFeed)) = [Slice lateAck] \<and>
   vbnosAt (reqTss (feedOf (drain (snd (waitStreamRequests quietEnv 0 ''default'' ''b''
      (Some (tsOf [(0, 100, 7, 0, 0)])) staleFeed))))) ''b'' = [1] \<and>
   vbnosAt (actTss (feedOf (drain (snd (waitStreamRequests quietEnv 0 ''default'' ''b''
      (Some (tsOf [(0, 100, 7, 0, 0)])) staleFeed))))) ''b'' = [] \<and>
   vbnosAt (reqTss (feedOf (drain staleFeed))) ''b'' = [] \<and>
   vbnosAt (actTss (feedOf (drain staleFeed))) ''b'' = [1]"
  by code_simp

subsection \<open>AddBuckets and the active partitions\<close>

text \<open>
  C3. AddBuckets should take the partitions that are already active out of the request
  before it asks upstream, as start does. It does not: addBuckets calls FilterByVbuckets
  and drops the result. With partition 0 of bucket b active, a request for partitions 0
  and 1 sends StartVbStreams for both through addBuckets and for partition 1 alone through
  start.
\<close>

theorem addBuckets_requests_active_partition_again:
  "upstream (snd (addBuckets quietEnv
      (request ''dataport'' [tsOf [(0, 100, 7, 0, 0), (1, 200, 8, 0, 0)]])
      (feedWith [] [(0, 100, 7, 0, 0)] []))) =
     [StartVbStreams ''b'' 0 (Some (tsOf [(0, 100, 7, 0, 0), (1, 200, 8, 0, 0)]))] \<and>
   upstream (snd (start quietEnv
      (request ''dataport'' [tsOf [(0, 100, 7, 0, 0), (1, 200, 8, 0, 0)]])
      (feedWith [] [(0, 100, 7, 0, 0)] []))) =
     [StartVbStreams ''b'' 0 (Some (tsOf [(1, 200, 8, 0, 0)]))]"
  by code_simp

text \<open>
  C1. The partitions of reqTs, actTs and rollTs of a bucket should be pairwise disjoint
  after every turn. AddBuckets breaks it for the reason given under C3: with partition 0
  of bucket b active, AddBuckets for partition 0 times out and leaves partition 0 both
  outstanding and active, where start leaves nothing outstanding.
\<close>

theorem addBuckets_leaves_partition_outstanding_and_active:
  "vbnosAt (reqTss (snd (addBuckets quietEnv (request ''dataport'' [tsOf [(0, 100, 7, 0, 0)]])
      (feedWith [] [(0, 100, 7, 0, 0)] [])))) ''b'' = [0] \<and>
   vbnosAt (actTss (snd (addBuckets quietEnv (request ''dataport'' [tsOf [(0, 100, 7, 0, 0)]])
      (feedWith [] [(0, 100, 7, 0, 0)] [])))) ''b'' = [0] \<and>
   vbnosAt (reqTss (snd (start quietEnv (request ''dataport'' [tsOf [(0, 100, 7, 0, 0)]])
      (feedWith [] [(0, 100, 7, 0, 0)] [])))) ''b'' = [] \<and>
   vbnosAt (actTss (snd (start quietEnv (request ''dataport'' [tsOf [(0, 100, 7, 0, 0)]])
      (feedWith [] [(0, 100, 7, 0, 0)] [])))) ''b'' = [0]"
  by code_simp

subsection \<open>RestartVbuckets and the outstanding partitions\<close>

text \<open>
  C4. RestartVbuckets should keep the partitions that were outstanding before the call in
  reqTs, as start does with \<^verbatim>\<open>ts.Union(reqTs)\<close>. It does not: restartVbuckets writes
  \<^verbatim>\<open>ts.Union(ts)\<close>. With partition 3 of bucket b outstanding, a restart of partition 0
  that times out leaves only partition 0 outstanding; start leaves 0 and 3.
\<close>

theorem restartVbuckets_forgets_outstanding_partition:
  "vbnosAt (reqTss (snd (restartVbuckets quietEnv [tsOf [(0, 100, 7, 0, 0)]]
      (feedWith [(3, 5, 5, 0, 0)] [] [])))) ''b'' = [0] \<and>
   vbnosAt (reqTss (snd (start quietEnv (request ''dataport'' [tsOf [(0, 100, 7, 0, 0)]])
      (feedWith [(3, 5, 5, 0, 0)] [] [])))) ''b'' = [0, 3]"
  by code_simp

subsection \<open>RepairEndpoints and its error\<close>

text \<open>Whatever happens in its loop, repairEndpoints returns nil.\<close>

lemma repairEndpoints_nil: "fst (repairEndpoints env raddrs feed) = None"
  by (simp add: repairEndpoints_def case_prod_beta)

text \<open>
  C9. RepairEndpoints should return the error met while restarting endpoints. It does
  not: repairEndpoints keeps the error in \<^verbatim>\<open>err\<close> and ends with \<^verbatim>\<open>return nil\<close>.
  When the factory cannot reach down:9100 the call still returns nil; the loop does go on
  to the next address, up:9100, and stores its endpoint.
\<close>

theorem repairEndpoints_returns_nil_on_factory_error:
  "epFactory flakyEnv ''topic'' ''dataport'' ''down:9100'' = Inl (ErrorTransport ''connection refused'') \<and>
   repairEndpoints flakyEnv [''down:9100'', ''up:9100''] (feedWith [] [] []) =
     (None, (feedWith [] [] [])\<lparr>endpoints := [(''up:9100'', RouterEndpoint 1)]\<rparr>)"
  by (simp add: flakyEnv_def quietEnv_def repairEndpoints_def restartEndpoint_def
      getEndpoint_def endpointRaddrs_def feedWith_def NewFeed_def)

subsection \<open>Feedback on a stream request between commands\<close>

text \<open>
  C5, as the code has it. A controlStreamRequest message for a partition that has no entry
  in reqTs of its bucket is dropped and the feed stays as it is. Otherwise the partition is
  removed from reqTs of the bucket and, with (seqno, vbuuid, sStart, sEnd) the partition's
  entry in reqTs: on ROLLBACK the entry (partition, sequence number of the message, vbuuid,
  sStart, sEnd) is appended to rollTs of the bucket; on SUCCESS the entry (partition, seqno,
  vbuuid, sStart, sEnd) is appended to actTs of the bucket; on any other status nothing is
  appended. The branch and the range are those of the reqTs entry, not the branch of the
  message and not 0, 0. Appending needs the bucket to hold a timestamp in rollTs,
  respectively actTs.
\<close>

theorem streamRequest_feedback_turn:
  "(sr_vbno v \<notin> set (vbnosAt (reqTss feed) (sr_bucket v)) \<longrightarrow>
      backchTurn (StreamRequest v) feed = Continue feed) \<and>
   (map_of (entriesAt (reqTss feed) (sr_bucket v)) (sr_vbno v) = Some (seqno, vbuuid, sStart, sEnd) \<longrightarrow>
      (sr_status v = ROLLBACK \<and> at (rollTss feed) (sr_bucket v) = Some rollTs \<longrightarrow>
         backchTurn (StreamRequest v) feed =
           Continue (feed\<lparr>reqTss := (reqTss feed)(sr_bucket v \<mapsto>
                              FilterByVbuckets (at (reqTss feed) (sr_bucket v)) [sr_vbno v]),
                           rollTss := (rollTss feed)(sr_bucket v \<mapsto>
                              Some (Append rollTs (sr_vbno v) (sr_seqno v) vbuuid sStart sEnd))\<rparr>)) \<and>
      (sr_status v = SUCCESS \<and> at (actTss feed) (sr_bucket v) = Some actTs \<longrightarrow>
         backchTurn (StreamRequest v) feed =
           Continue (feed\<lparr>reqTss := (reqTss feed)(sr_bucket v \<mapsto>
                              FilterByVbuckets (at (reqTss feed) (sr_bucket v)) [sr_vbno v]),
                           actTss := (actTss feed)(sr_bucket v \<mapsto>
                              Some (Append actTs (sr_vbno v) seqno vbuuid sStart sEnd))\<rparr>)) \<and>
      (sr_status v \<noteq> ROLLBACK \<and> sr_status v \<noteq> SUCCESS \<longrightarrow>
         backchTurn (StreamRequest v) feed =
           Continue (feed\<lparr>reqTss := (reqTss feed)(sr_bucket v \<mapsto>
                              FilterByVbuckets (at (reqTss feed) (sr_bucket v)) [sr_vbno v])\<rparr>)))"
proof (intro conjI impI)
  assume "sr_vbno v \<notin> set (vbnosAt (reqTss feed) (sr_bucket v))"
  then show "backchTurn (StreamRequest v) feed = Continue feed"
    by (simp add: backchTurn_def vbnosAt_def Get_absent)
next
  assume p: "map_of (entriesAt (reqTss feed) (sr_bucket v)) (sr_vbno v) = Some (seqno, vbuuid, sStart, sEnd)"
  then have g: "Get (at (reqTss feed) (sr_bucket v)) (sr_vbno v) = Inr (seqno, vbuuid, sStart, sEnd)"
    by (simp add: entriesAt_def Get_present)
  have h: "has (reqTss feed) (sr_bucket v)"
    using p by (rule present_has)
  {
    assume "sr_status v = ROLLBACK \<and> at (rollTss feed) (sr_bucket v) = Some rollTs"
    then show "backchTurn (StreamRequest v) feed =
           Continue (feed\<lparr>reqTss := (reqTss feed)(sr_bucket v \<mapsto>
                              FilterByVbuckets (at (reqTss feed) (sr_bucket v)) [sr_vbno v]),
                           rollTss := (rollTss feed)(sr_bucket v \<mapsto>
                              Some (Append rollTs (sr_vbno v) (sr_seqno v) vbuuid sStart sEnd))\<rparr>)"
      using g h by (simp add: backchTurn_def Let_def)
  }
  {
    assume "sr_status v = SUCCESS \<and> at (actTss feed) (sr_bucket v) = Some actTs"
    then show "backchTurn (StreamRequest v) feed =
           Continue (feed\<lparr>reqTss := (reqTss feed)(sr_bucket v \<mapsto>
                              FilterByVbuckets (at (reqTss feed) (sr_bucket v)) [sr_vbno v]),
                           actTss := (actTss feed)(sr_bucket v \<mapsto>
                              Some (Append actTs (sr_vbno v) seqno vbuuid sStart sEnd))\<rparr>)"
      using g h by (simp add: backchTurn_def Let_def)
  }
  {
    assume "sr_status v \<noteq> ROLLBACK \<and> sr_status v \<noteq> SUCCESS"
    then show "backchTurn (StreamRequest v) feed =
           Continue (feed\<lparr>reqTss := (reqTss feed)(sr_bucket v \<mapsto>
                              FilterByVbuckets (at (reqTss feed) (sr_bucket v)) [sr_vbno v])\<rparr>)"
      using g h by (simp add: backchTurn_def Let_def)
  }
qed

theorem streamRequest_feedback_turn_witness:
  "backchTurn (StreamRequest rollbackMsg) (feedWith [(0, 100, 7, 10, 20)] [] []) =
     Continue (feedWith [] [] [(0, 50, 7, 10, 20)])"
  using streamRequest_feedback_turn
    [of rollbackMsg "feedWith [(0, 100, 7, 10, 20)] [] []" 100 7 10 20 "tsOf []"]
  by (simp add: rollbackMsg_def feedWith_def entriesAt_def entriesOf_def at_def tsOf_def
      NewFeed_def FilterByVbuckets_def Append_def)

text \<open>
  C5 as stated fails: with the reqTs entry (0, 100, 7, 10, 20), a ROLLBACK at sequence
  number 50 on branch 9 appends (0, 50, 7, 10, 20) to rollTs, and a SUCCESS appends
  (0, 100, 7, 10, 20) to actTs: neither ends in 0, 0.
\<close>

theorem streamRequest_feedback_keeps_range:
  "entriesAt (rollTss (feedOf (backchTurn (StreamRequest rollbackMsg)
      (feedWith [(0, 100, 7, 10, 20)] [] [])))) ''b'' = [(0, 50, 7, 10, 20)] \<and>
   entriesAt (actTss (feedOf (backchTurn (StreamRequest (rollbackMsg\<lparr>sr_status := SUCCESS\<rparr>))
      (feedWith [(0, 100, 7, 10, 20)] [] [])))) ''b'' = [(0, 100, 7, 10, 20)]"
  by code_simp

subsection \<open>Malformed subscriber sets\<close>






subsection \<open>What a wait and an upstream call leave alone\<close>





lemma GetBucket_Select [simp]: "GetBucket (SelectByVbuckets (Some ts0) vbnos) = Bucket ts0"
  by (simp add: GetBucket_def SelectByVbuckets_def)

subsection \<open>ShutdownVbuckets on a bucket that is not set up\<close>







subsection \<open>Start followed by ShutdownVbuckets\<close>

lemma fst_zeroed [simp]: "fst (zeroed e) = fst e"
  by (simp add: zeroed_def split: prod.splits)

lemma fst_ended [simp]: "fst (ended vb) = vb"
  by (simp add: ended_def)









lemma entriesOf_Some [simp]: "entriesOf (Some ts) = Entries ts"
  by (simp add: entriesOf_def)

lemma entriesOf_None [simp]: "entriesOf None = []"
  by (simp add: entriesOf_def)

lemma entriesAt_upd [simp]: "entriesAt (m(b \<mapsto> p)) b = entriesOf p"
  by (simp add: entriesAt_def at_def)
























end
